theory Spec2Isabelle
  imports Complex_Main "HOL-Library.Sublist" "HOL-Library.AList"
begin

section \<open>Strings\<close>

text \<open>
  Go strings are byte sequences; they are modelled as \<open>string\<close> (a list of 8-bit characters).
  \<open>strings.ToLower\<close> is modelled on ASCII text, where it maps the bytes \<open>A\<close>..\<open>Z\<close> to
  \<open>a\<close>..\<open>z\<close> and leaves every other byte alone. All phrase lists of the program are ASCII.
  Case folding of runes outside ASCII is not modelled.
\<close>

definition toLowerByte :: "char \<Rightarrow> char" where
  "toLowerByte c =
     (let n = (of_char c :: nat) in if 65 \<le> n \<and> n \<le> 90 then char_of (n + 32) else c)"

definition ToLower :: "string \<Rightarrow> string" where
  "ToLower s = map toLowerByte s"

text \<open>\<open>strings.Contains(s, substr)\<close>: \<open>substr\<close> occurs in \<open>s\<close> as a contiguous run of bytes.\<close>

fun Contains :: "string \<Rightarrow> string \<Rightarrow> bool" where
  "Contains [] substr = (substr = [])"
| "Contains (c # cs) substr = (prefix substr (c # cs) \<or> Contains cs substr)"

section \<open>The AI response engine\<close>

record GroqMessage =
  Role :: string
  GroqContent :: string

record KnowledgeItem =
  Topic :: string
  Question :: string
  Answer :: string
  Keywords :: "string list"

record ChatEngine =
  knowledgeBase :: "KnowledgeItem list"
  systemPrompt :: string

record ChatResponse =
  Reply :: string
  Confidence :: real
  SuggestHandover :: bool
  RespSentiment :: string

text \<open>
  The loop \<open>for _, word := range words { if strings.Contains(message, word) { return ... } }\<close>:
  it reports whether the scan returned from inside the loop.
\<close>

fun containsAny :: "string \<Rightarrow> string list \<Rightarrow> bool" where
  "containsAny message [] = False"
| "containsAny message (word # words) =
     (if Contains message word then True else containsAny message words)"

definition frustratedWords :: "string list" where
  "frustratedWords =
     [''tidak membantu'', ''payah'', ''lambat'', ''bingung'', ''kesel'', ''marah'',
      ''kecewa'', ''buruk'', ''jelek'', ''lama sekali'', ''susah'', ''ribet'',
      ''bodoh'', ''tolol'', ''goblok'', ''bangsat'', ''anjing'', ''babi'']"

definition positiveWords :: "string list" where
  "positiveWords =
     [''terima kasih'', ''makasih'', ''bagus'', ''hebat'', ''mantap'', ''keren'',
      ''membantu'', ''jelas'', ''paham'', ''mengerti'', ''terbantu'', ''baik'']"

definition analyzeSentiment :: "string \<Rightarrow> string" where
  "analyzeSentiment message0 =
     (let message = ToLower message0 in
      if containsAny message frustratedWords then ''frustrated''
      else if containsAny message positiveWords then ''positive''
      else ''neutral'')"

text \<open>
  The inner loop of \<open>findRelevantKnowledge\<close> over the keywords of one item (it appends the item
  and breaks at the first keyword found), and the outer loop over the knowledge base, which
  threads the slice \<open>relevant\<close>.
\<close>

fun keywordHit :: "string \<Rightarrow> string list \<Rightarrow> bool" where
  "keywordHit message [] = False"
| "keywordHit message (keyword # keywords) =
     (if Contains message (ToLower keyword) then True else keywordHit message keywords)"

fun relevantLoop :: "string \<Rightarrow> KnowledgeItem list \<Rightarrow> KnowledgeItem list \<Rightarrow> KnowledgeItem list" where
  "relevantLoop message [] relevant = relevant"
| "relevantLoop message (item # items) relevant =
     relevantLoop message items
       (if keywordHit message (Keywords item) then relevant @ [item] else relevant)"

definition findRelevantKnowledge :: "ChatEngine \<Rightarrow> string \<Rightarrow> KnowledgeItem list" where
  "findRelevantKnowledge e message0 =
     (let message = ToLower message0;
          relevant = relevantLoop message (knowledgeBase e) []
      in if length relevant > 3 then take 3 relevant else relevant)"


text \<open>
  The prompt sent to the model: the fixed system prompt, followed, when some knowledge item is
  relevant, by one line \<open>- topic: answer\<close> per item (\<open>fmt.Sprintf("- %s: %s\n", ...)\<close>).
\<close>

fun writeItems :: "string \<Rightarrow> KnowledgeItem list \<Rightarrow> string" where
  "writeItems sb [] = sb"
| "writeItems sb (item # items) =
     writeItems (sb @ ''- '' @ Topic item @ '': '' @ Answer item @ [CHR 0x0A]) items"

definition buildSystemPrompt :: "ChatEngine \<Rightarrow> KnowledgeItem list \<Rightarrow> string" where
  "buildSystemPrompt e relevantKnowledge =
     (if length relevantKnowledge = 0 then systemPrompt e
      else writeItems (systemPrompt e @ [CHR 0x0A, CHR 0x0A] @ ''INFORMASI RELEVAN:'' @ [CHR 0x0A])
             relevantKnowledge)"

definition humanRequestWords :: "string list" where
  "humanRequestWords =
     [''bicara dengan manusia'', ''hubungi admin'', ''chat admin'',
      ''bicara admin'', ''mau ke admin'', ''operator'', ''cs'',
      ''customer service'', ''complaint'', ''komplain'']"

definition uncertaintyPhrases :: "string list" where
  "uncertaintyPhrases =
     [''tidak yakin'', ''kurang tahu'', ''sebaiknya hubungi'',
      ''lebih baik tanya'', ''konsultasikan'', ''tim kami'']"

definition shouldSuggestHandover :: "string \<Rightarrow> string \<Rightarrow> bool" where
  "shouldSuggestHandover userMessage0 botReply0 =
     (let userMessage = ToLower userMessage0; botReply = ToLower botReply0 in
      if containsAny userMessage humanRequestWords then True
      else if containsAny botReply uncertaintyPhrases then True
      else False)"

text \<open>
  Errors are values. The document store is modelled as reliable: a read of a missing document
  and the creation of an existing one fail, nothing else does. The call to the external model
  (\<open>GroqClient.Chat\<close>: an HTTP request) is a parameter \<open>chat\<close> of the operations that reach it,
  giving for the request sent either an error or the reply text.
\<close>

datatype error = NotFound | AlreadyExists | TransportError | GroqAPIError error | HistoryError error

type_synonym transport = "GroqMessage list \<Rightarrow> error + string"

text \<open>
  \<open>ChatEngine.ProcessMessage\<close>. Besides its result it returns the request it sent to the
  external model, so that callers can record that the call took place.
\<close>

definition engineProcessMessage ::
  "ChatEngine \<Rightarrow> transport \<Rightarrow> string \<Rightarrow> GroqMessage list
     \<Rightarrow> (error + ChatResponse) \<times> GroqMessage list" where
  "engineProcessMessage e chat userMessage conversationHistory =
     (let sentiment = analyzeSentiment userMessage;
          relevantKnowledge = findRelevantKnowledge e userMessage;
          messages0 = [\<lparr>Role = ''system'', GroqContent = buildSystemPrompt e relevantKnowledge\<rparr>];
          historyStart = (if length conversationHistory > 10
                          then length conversationHistory - 10 else 0);
          messages1 = messages0 @ drop historyStart conversationHistory;
          messages = messages1 @ [\<lparr>Role = ''user'', GroqContent = userMessage\<rparr>]
      in case chat messages of
           Inl err \<Rightarrow> (Inl (GroqAPIError err), messages)
         | Inr reply \<Rightarrow>
             (Inr \<lparr>Reply = reply, Confidence = 8 / 10,
                   SuggestHandover =
                     (sentiment = ''frustrated'' \<or> shouldSuggestHandover userMessage reply),
                   RespSentiment = sentiment\<rparr>,
              messages))"

section \<open>Sessions, messages and the session manager\<close>

text \<open>
  Instants (\<open>time.Time\<close>) and durations are integers (nanoseconds); one reading \<open>now\<close> of the
  clock is passed to each operation and stands for every \<open>time.Now()\<close> inside it. The failure
  counter is an unbounded integer: the program only sets it to 0 and adds 1, so the machine
  bound is out of reach.
\<close>

datatype SessionStatus = StatusBot | StatusQueued | StatusLive | StatusClosed

record ChatSession =
  ID :: string
  VisitorID :: string
  VisitorName :: string
  VisitorEmail :: string
  VisitorPhone :: string
  Status :: SessionStatus
  AssignedAdmin :: string
  CurrentPage :: string
  AISummary :: string
  Sentiment :: string
  FailedAttempts :: int
  LastMessageAt :: int
  CreatedAt :: int
  Location :: string
  ClosedAt :: "int option"

record ChatMessage =
  MsgID :: string
  SessionID :: string
  Sender :: string
  Content :: string
  Timestamp :: int

record AdminStatus =
  AdminID :: string
  AdminName :: string
  AdminState :: string
  ActiveChats :: int
  MaxChats :: int
  LastSeen :: int

text \<open>
  The session manager with the two document collections it works on. \<open>sessionDocs\<close> is the
  collection \<open>web_chat_sessions\<close>, keyed by document id; \<open>messageDocs\<close> is the collection
  \<open>web_chat_messages\<close> in insertion order (the generated ids of message documents are not
  modelled: no operation reads them). \<open>adminStatus\<close> is the in-memory map of the source.
  \<open>groqLog\<close> records the requests that were sent to the external model, oldest first.
\<close>

record SessionManager =
  sessionDocs :: "(string \<times> ChatSession) list"
  messageDocs :: "ChatMessage list"
  chatEngine :: ChatEngine
  adminStatus :: "(string \<times> AdminStatus) list"
  groqLog :: "GroqMessage list list"

text \<open>The field \<open>ID\<close> carries the tag \<open>firestore:"-"\<close>: it is not written to the document.\<close>

definition toDoc :: "ChatSession \<Rightarrow> ChatSession" where
  "toDoc session = session\<lparr>ID := ''''\<rparr>"

definition CreateSession ::
  "SessionManager \<Rightarrow> int \<Rightarrow> string \<Rightarrow> string \<Rightarrow> string \<Rightarrow> string \<Rightarrow> string \<Rightarrow> string \<Rightarrow> string
     \<Rightarrow> (error + ChatSession) \<times> SessionManager" where
  "CreateSession sm now newID visitorID visitorName visitorEmail visitorPhone currentPage location =
     (let session = \<lparr>ID = '''', VisitorID = visitorID, VisitorName = visitorName,
                      VisitorEmail = visitorEmail, VisitorPhone = visitorPhone,
                      Status = StatusBot, AssignedAdmin = '''', CurrentPage = currentPage,
                      AISummary = '''', Sentiment = ''neutral'', FailedAttempts = 0,
                      LastMessageAt = now, CreatedAt = now, Location = location,
                      ClosedAt = None\<rparr>
      in if newID \<in> set (map fst (sessionDocs sm)) then (Inl AlreadyExists, sm)
         else (Inr (session\<lparr>ID := newID\<rparr>),
               sm\<lparr>sessionDocs := AList.update newID (toDoc session) (sessionDocs sm)\<rparr>))"

definition GetSession :: "SessionManager \<Rightarrow> string \<Rightarrow> error + ChatSession" where
  "GetSession sm sessionID =
     (case map_of (sessionDocs sm) sessionID of
        None \<Rightarrow> Inl NotFound
      | Some doc \<Rightarrow> Inr (doc\<lparr>ID := sessionID\<rparr>))"

definition UpdateSession :: "SessionManager \<Rightarrow> ChatSession \<Rightarrow> error + SessionManager" where
  "UpdateSession sm session =
     Inr (sm\<lparr>sessionDocs := AList.update (ID session) (toDoc session) (sessionDocs sm)\<rparr>)"

text \<open>
  \<open>SaveMessage\<close> adds the message and then updates the field \<open>lastMessageAt\<close> of the session
  document; that update fails on a missing document, which is logged and not returned.
\<close>

definition SaveMessage :: "SessionManager \<Rightarrow> ChatMessage \<Rightarrow> error + SessionManager" where
  "SaveMessage sm msg =
     (let sm1 = sm\<lparr>messageDocs := messageDocs sm @ [msg]\<rparr> in
      case map_of (sessionDocs sm1) (SessionID msg) of
        None \<Rightarrow> Inr sm1
      | Some doc \<Rightarrow>
          Inr (sm1\<lparr>sessionDocs :=
                 AList.update (SessionID msg) (doc\<lparr>LastMessageAt := Timestamp msg\<rparr>)
                   (sessionDocs sm1)\<rparr>))"

text \<open>
  \<open>GetMessages\<close>: the query \<open>Where sessionId == id, OrderBy timestamp ascending, Limit limit\<close>.
  Documents with equal timestamps are kept in insertion order.
\<close>

definition GetMessages :: "SessionManager \<Rightarrow> string \<Rightarrow> nat \<Rightarrow> error + ChatMessage list" where
  "GetMessages sm sessionID limit =
     Inr (take limit
            (sort_key Timestamp (filter (\<lambda>m. SessionID m = sessionID) (messageDocs sm))))"


section \<open>The agent presence registry\<close>

definition UpdateAdminStatus ::
  "SessionManager \<Rightarrow> int \<Rightarrow> string \<Rightarrow> string \<Rightarrow> string \<Rightarrow> SessionManager" where
  "UpdateAdminStatus sm now adminID adminName status =
     (if status = ''offline'' then sm\<lparr>adminStatus := AList.delete adminID (adminStatus sm)\<rparr>
      else case map_of (adminStatus sm) adminID of
             Some existing \<Rightarrow>
               sm\<lparr>adminStatus :=
                    AList.update adminID (existing\<lparr>AdminState := status, LastSeen := now\<rparr>)
                      (adminStatus sm)\<rparr>
           | None \<Rightarrow>
               sm\<lparr>adminStatus :=
                    AList.update adminID
                      \<lparr>AdminID = adminID, AdminName = adminName, AdminState = status,
                       ActiveChats = 0, MaxChats = 5, LastSeen = now\<rparr>
                      (adminStatus sm)\<rparr>)"

text \<open>The loop of \<open>IsAnyAdminOnline\<close> over the entries of the map.\<close>

fun anyOnline :: "(string \<times> AdminStatus) list \<Rightarrow> bool" where
  "anyOnline [] = False"
| "anyOnline ((adminID, admin) # rest) =
     (if AdminState admin = ''online'' then True else anyOnline rest)"

definition IsAnyAdminOnline :: "SessionManager \<Rightarrow> bool" where
  "IsAnyAdminOnline sm = anyOnline (adminStatus sm)"

section \<open>The message pipeline\<close>

text \<open>The loop of \<open>ProcessMessage\<close> that converts the loaded messages to the format of the model.\<close>

fun historyLoop :: "ChatMessage list \<Rightarrow> GroqMessage list \<Rightarrow> GroqMessage list" where
  "historyLoop [] history = history"
| "historyLoop (msg # msgs) history =
     (let role = (if Sender msg = ''bot'' \<or> Sender msg = ''admin'' then ''assistant''
                  else ''user'')
      in historyLoop msgs
           (if Sender msg \<noteq> ''system''
            then history @ [\<lparr>Role = role, GroqContent = Content msg\<rparr>]
            else history))"

definition handoverOffer :: ChatResponse where
  "handoverOffer =
     \<lparr>Reply = ''Maaf, saya mengalami kesulitan. Mau saya hubungkan dengan admin kami?'',
      Confidence = 0, SuggestHandover = True, RespSentiment = ''neutral''\<rparr>"

definition retryPrompt :: ChatResponse where
  "retryPrompt =
     \<lparr>Reply = ''Maaf, ada sedikit gangguan. Bisa ulangi pertanyaan Anda?'',
      Confidence = 0, SuggestHandover = False, RespSentiment = ''neutral''\<rparr>"

text \<open>A call whose error result the source drops (or only logs): the state stays as it was.\<close>

definition orKeep :: "error + SessionManager \<Rightarrow> SessionManager \<Rightarrow> SessionManager" where
  "orKeep r sm = (case r of Inl err \<Rightarrow> sm | Inr sm' \<Rightarrow> sm')"

definition ProcessMessage ::
  "SessionManager \<Rightarrow> transport \<Rightarrow> int \<Rightarrow> string \<Rightarrow> string
     \<Rightarrow> (error + ChatResponse) \<times> SessionManager" where
  "ProcessMessage sm chat now sessionID content =
     (case GetSession sm sessionID of
        Inl err \<Rightarrow> (Inl err, sm)
      | Inr session \<Rightarrow>
          if Status session = StatusLive
          then (Inr \<lparr>Reply = '''', Confidence = 0, SuggestHandover = False,
                     RespSentiment = ''neutral''\<rparr>, sm)
          else
            (case GetMessages sm sessionID 20 of
               Inl err \<Rightarrow> (Inl (HistoryError err), sm)
             | Inr messages \<Rightarrow>
                 (let history = historyLoop messages [];
                      (result, request) =
                         engineProcessMessage (chatEngine sm) chat content history;
                      sm1 = sm\<lparr>groqLog := groqLog sm @ [request]\<rparr>;
                      (response, session1, sm2) =
                        (case result of
                           Inl err \<Rightarrow>
                             (let session' = session\<lparr>FailedAttempts := FailedAttempts session + 1\<rparr>;
                                  response' = (if FailedAttempts session' \<ge> 2 then handoverOffer
                                               else retryPrompt)
                              in (response', session', orKeep (UpdateSession sm1 session') sm1))
                         | Inr response' \<Rightarrow> (response', session, sm1));
                      botMsg = \<lparr>MsgID = '''', SessionID = sessionID, Sender = ''bot'',
                                Content = Reply response, Timestamp = now\<rparr>;
                      sm3 = orKeep (SaveMessage sm2 botMsg) sm2;
                      session2 = session1\<lparr>Sentiment := RespSentiment response\<rparr>;
                      sm4 = orKeep (UpdateSession sm3 session2) sm3
                  in (Inr response, sm4))))"

section \<open>The session transitions\<close>

definition RequestHandover ::
  "SessionManager \<Rightarrow> int \<Rightarrow> string \<Rightarrow> (error + bool) \<times> SessionManager" where
  "RequestHandover sm now sessionID =
     (case GetSession sm sessionID of
        Inl err \<Rightarrow> (Inl err, sm)
      | Inr session0 \<Rightarrow>
          (let session = session0\<lparr>Status := StatusQueued\<rparr> in
           case UpdateSession sm session of
             Inl err \<Rightarrow> (Inl err, sm)
           | Inr sm1 \<Rightarrow>
               (let sysMsg = \<lparr>MsgID = '''', SessionID = sessionID, Sender = ''system'',
                              Content = ''Pengunjung meminta untuk dihubungkan dengan admin.'',
                              Timestamp = now\<rparr>;
                    sm2 = orKeep (SaveMessage sm1 sysMsg) sm1;
                    adminOnline = IsAnyAdminOnline sm2
                in (Inr adminOnline, sm2))))"

definition ClaimSession ::
  "SessionManager \<Rightarrow> int \<Rightarrow> string \<Rightarrow> string \<Rightarrow> string \<Rightarrow> error option \<times> SessionManager" where
  "ClaimSession sm now sessionID adminID adminName =
     (case GetSession sm sessionID of
        Inl err \<Rightarrow> (Some err, sm)
      | Inr session0 \<Rightarrow>
          (let session = session0\<lparr>Status := StatusLive, AssignedAdmin := adminID\<rparr> in
           case UpdateSession sm session of
             Inl err \<Rightarrow> (Some err, sm)
           | Inr sm1 \<Rightarrow>
               (let sysMsg = \<lparr>MsgID = '''', SessionID = sessionID, Sender = ''system'',
                              Content = adminName @ '' telah bergabung ke chat.'',
                              Timestamp = now\<rparr>;
                    sm2 = orKeep (SaveMessage sm1 sysMsg) sm1
                in (None, sm2))))"

definition CloseSession ::
  "SessionManager \<Rightarrow> int \<Rightarrow> string \<Rightarrow> error option \<times> SessionManager" where
  "CloseSession sm now sessionID =
     (case GetSession sm sessionID of
        Inl err \<Rightarrow> (Some err, sm)
      | Inr session0 \<Rightarrow>
          (let session = session0\<lparr>Status := StatusClosed, ClosedAt := Some now\<rparr> in
           case UpdateSession sm session of
             Inl err \<Rightarrow> (Some err, sm)
           | Inr sm1 \<Rightarrow> (None, sm1)))"

definition ReturnToBot ::
  "SessionManager \<Rightarrow> int \<Rightarrow> string \<Rightarrow> error option \<times> SessionManager" where
  "ReturnToBot sm now sessionID =
     (case GetSession sm sessionID of
        Inl err \<Rightarrow> (Some err, sm)
      | Inr session0 \<Rightarrow>
          (let session = session0\<lparr>Status := StatusBot, AssignedAdmin := '''',
                                  FailedAttempts := 0\<rparr> in
           case UpdateSession sm session of
             Inl err \<Rightarrow> (Some err, sm)
           | Inr sm1 \<Rightarrow>
               (let sysMsg = \<lparr>MsgID = '''', SessionID = sessionID, Sender = ''system'',
                              Content = ''Sesi telah dikembalikan ke AI. Silakan lanjutkan percakapan Anda.'',
                              Timestamp = now\<rparr>;
                    sm2 = orKeep (SaveMessage sm1 sysMsg) sm1
                in (None, sm2))))"

section \<open>The inactivity reaper\<close>

text \<open>
  \<open>CleanupInactiveSessions\<close> runs the query for the active sessions whose \<open>lastMessageAt\<close> is
  before the cutoff and closes each document of the result, in the order of the collection.
\<close>

definition timeoutNotice :: "string \<Rightarrow> int \<Rightarrow> ChatMessage" where
  "timeoutNotice sessionID now =
     \<lparr>MsgID = '''', SessionID = sessionID, Sender = ''system'',
      Content = ''Sesi chat telah berakhir otomatis karena tidak ada aktivitas selama 6 menit.'',
      Timestamp = now\<rparr>"

fun reapLoop :: "SessionManager \<Rightarrow> int \<Rightarrow> (string \<times> ChatSession) list \<Rightarrow> SessionManager" where
  "reapLoop sm now [] = sm"
| "reapLoop sm now ((docID, doc) # rest) =
     (let session = doc\<lparr>ID := docID, Status := StatusClosed, ClosedAt := Some now,
                        Sentiment := ''timeout''\<rparr> in
      case UpdateSession sm session of
        Inl err \<Rightarrow> reapLoop sm now rest
      | Inr sm1 \<Rightarrow>
          reapLoop (orKeep (SaveMessage sm1 (timeoutNotice (ID session) now)) sm1) now rest)"

definition overdue :: "int \<Rightarrow> ChatSession \<Rightarrow> bool" where
  "overdue cutoff doc =
     (Status doc \<in> {StatusLive, StatusQueued, StatusBot} \<and> LastMessageAt doc < cutoff)"

definition CleanupInactiveSessions ::
  "SessionManager \<Rightarrow> int \<Rightarrow> int \<Rightarrow> error option \<times> SessionManager" where
  "CleanupInactiveSessions sm now duration =
     (let cutoff = now + (- duration);
          docs = filter (\<lambda>(docID, doc). overdue cutoff doc) (sessionDocs sm)
      in (None, reapLoop sm now docs))"


section \<open>Notions used to state the properties\<close>

text \<open>
  The history that \<open>ProcessMessage\<close> builds for a session, the outcome of the call to the AI
  engine it makes with it, and the stored session document under an id.
\<close>

definition pipelineHistory :: "SessionManager \<Rightarrow> string \<Rightarrow> GroqMessage list" where
  "pipelineHistory sm sessionID =
     (case GetMessages sm sessionID 20 of
        Inl err \<Rightarrow> []
      | Inr messages \<Rightarrow> historyLoop messages [])"

definition aiResult :: "SessionManager \<Rightarrow> transport \<Rightarrow> string \<Rightarrow> string \<Rightarrow> error + ChatResponse" where
  "aiResult sm chat sessionID content =
     fst (engineProcessMessage (chatEngine sm) chat content (pipelineHistory sm sessionID))"

definition aiRequest :: "SessionManager \<Rightarrow> transport \<Rightarrow> string \<Rightarrow> string \<Rightarrow> GroqMessage list" where
  "aiRequest sm chat sessionID content =
     snd (engineProcessMessage (chatEngine sm) chat content (pipelineHistory sm sessionID))"

definition botReply :: "string \<Rightarrow> int \<Rightarrow> string \<Rightarrow> ChatMessage" where
  "botReply sessionID now text =
     \<lparr>MsgID = '''', SessionID = sessionID, Sender = ''bot'', Content = text, Timestamp = now\<rparr>"


fun allSucceed :: "SessionManager \<Rightarrow> string \<Rightarrow> (transport \<times> int \<times> string) list \<Rightarrow> bool" where
  "allSucceed sm sessionID [] = True"
| "allSucceed sm sessionID ((chat, now, content) # calls) =
     (\<not> isl (aiResult sm chat sessionID content)
      \<and> allSucceed (snd (ProcessMessage sm chat now sessionID content)) sessionID calls)"

text \<open>The session as the reaper leaves it, and a store in which document ids are unique.\<close>

definition reaped :: "int \<Rightarrow> ChatSession \<Rightarrow> ChatSession" where
  "reaped now s =
     s\<lparr>Status := StatusClosed, ClosedAt := Some now, Sentiment := ''timeout'',
       LastMessageAt := now\<rparr>"

definition uniqueIds :: "SessionManager \<Rightarrow> bool" where
  "uniqueIds sm = distinct (map fst (sessionDocs sm))"

text \<open>
  The operations that change sessions, as commands with their arguments, and the effect of a
  list of timed commands on the session manager. \<open>adminConsistent\<close> is the relation between the
  status of a session and its assigned agent that the operations maintain.
\<close>

datatype transition =
    DoCreateSession string string string string string string string
  | DoRequestHandover string
  | DoClaimSession string string string
  | DoCloseSession string
  | DoReturnToBot string
  | DoProcessMessage string string transport
  | DoCleanup int

fun step :: "SessionManager \<Rightarrow> int \<times> transition \<Rightarrow> SessionManager" where
  "step sm (now, DoCreateSession newID visitorID visitorName visitorEmail visitorPhone currentPage location) =
     snd (CreateSession sm now newID visitorID visitorName visitorEmail visitorPhone currentPage location)"
| "step sm (now, DoRequestHandover sessionID) = snd (RequestHandover sm now sessionID)"
| "step sm (now, DoClaimSession sessionID adminID adminName) =
     snd (ClaimSession sm now sessionID adminID adminName)"
| "step sm (now, DoCloseSession sessionID) = snd (CloseSession sm now sessionID)"
| "step sm (now, DoReturnToBot sessionID) = snd (ReturnToBot sm now sessionID)"
| "step sm (now, DoProcessMessage sessionID content chat) =
     snd (ProcessMessage sm chat now sessionID content)"
| "step sm (now, DoCleanup duration) = snd (CleanupInactiveSessions sm now duration)"


definition adminConsistent :: "ChatSession \<Rightarrow> bool" where
  "adminConsistent s =
     ((Status s = StatusBot \<longrightarrow> AssignedAdmin s = '''')
      \<and> (Status s = StatusLive \<longrightarrow> AssignedAdmin s \<noteq> ''''))"

definition allConsistent :: "SessionManager \<Rightarrow> bool" where
  "allConsistent sm = list_all (\<lambda>(docID, doc). adminConsistent doc) (sessionDocs sm)"


definition isClosed :: "SessionManager \<Rightarrow> string \<Rightarrow> bool" where
  "isClosed sm sessionID =
     (case GetSession sm sessionID of Inl err \<Rightarrow> False | Inr s \<Rightarrow> Status s = StatusClosed)"



section \<open>Sample data\<close>

definition kbItem :: "string \<Rightarrow> string list \<Rightarrow> KnowledgeItem" where
  "kbItem t ks = \<lparr>Topic = t, Question = '''', Answer = '''', Keywords = ks\<rparr>"

definition sampleEngine :: ChatEngine where
  "sampleEngine =
     \<lparr>knowledgeBase =
        [kbItem ''PT'' [''Pendirian'', ''pt''], kbItem ''ISO'' [''iso''],
         kbItem ''CV'' [''cv'', ''PT''], kbItem ''NIB'' [''nib'', ''Izin''],
         kbItem ''HAKI'' [''merek'', ''pt'']],
      systemPrompt = ''prompt''\<rparr>"

definition emptyManager :: SessionManager where
  "emptyManager =
     \<lparr>sessionDocs = [], messageDocs = [], chatEngine = sampleEngine, adminStatus = [],
      groqLog = []\<rparr>"


definition okChat :: transport where
  "okChat = (\<lambda>request. Inr ''Baik, kami bantu.'')"

definition newSession :: ChatSession where
  "newSession =
     \<lparr>ID = ''s1'', VisitorID = ''v1'', VisitorName = ''Vina'', VisitorEmail = ''vina@example.com'',
      VisitorPhone = ''0811'', Status = StatusBot, AssignedAdmin = '''', CurrentPage = ''/layanan'',
      AISummary = '''', Sentiment = ''neutral'', FailedAttempts = 0, LastMessageAt = 1,
      CreatedAt = 1, Location = ''Jakarta'', ClosedAt = None\<rparr>"

definition botStore :: SessionManager where
  "botStore =
     snd (CreateSession emptyManager 1 ''s1'' ''v1'' ''Vina'' ''vina@example.com'' ''0811''
            ''/layanan'' ''Jakarta'')"


definition liveStore :: SessionManager where
  "liveStore = snd (ClaimSession botStore 2 ''s1'' ''a1'' ''Ani'')"

definition closedStore :: SessionManager where
  "closedStore = snd (CloseSession liveStore 3 ''s1'')"



definition numbered :: "nat \<Rightarrow> ChatMessage" where
  "numbered i =
     \<lparr>MsgID = '''', SessionID = ''s1'', Sender = ''visitor'', Content = replicate i (CHR ''x''),
      Timestamp = int i\<rparr>"

definition longChat :: SessionManager where
  "longChat = botStore\<lparr>messageDocs := map numbered [1..<22]\<rparr>"

definition closedSession :: ChatSession where
  "closedSession =
     newSession\<lparr>Status := StatusClosed, AssignedAdmin := ''a1'', LastMessageAt := 2,
                 ClosedAt := Some 3\<rparr>"




section \<open>Substring search and lower-casing\<close>

lemma Contains_iff: "Contains s substr \<longleftrightarrow> (\<exists>p q. s = p @ substr @ q)"
proof (induction s)
  case Nil
  then show ?case by auto
next
  case (Cons c cs)
  show ?case
  proof
    assume "Contains (c # cs) substr"
    then consider "prefix substr (c # cs)" | "Contains cs substr" by auto
    then show "\<exists>p q. c # cs = p @ substr @ q"
    proof cases
      case 1
      then obtain q where "c # cs = substr @ q" by (auto simp: prefix_def)
      then have "c # cs = [] @ substr @ q" by simp
      then show ?thesis by blast
    next
      case 2
      then obtain p q where "cs = p @ substr @ q" using Cons.IH by blast
      then have "c # cs = (c # p) @ substr @ q" by simp
      then show ?thesis by blast
    qed
  next
    assume "\<exists>p q. c # cs = p @ substr @ q"
    then obtain p q where pq: "c # cs = p @ substr @ q" by blast
    show "Contains (c # cs) substr"
    proof (cases p)
      case Nil
      then have "prefix substr (c # cs)" using pq by (simp add: prefix_def)
      then show ?thesis by simp
    next
      case (Cons a p')
      then have "cs = p' @ substr @ q" using pq by simp
      then have "Contains cs substr" using Cons.IH by blast
      then show ?thesis by simp
    qed
  qed
qed

lemma ToLower_append: "ToLower (p @ q) = ToLower p @ ToLower q"
  by (simp add: ToLower_def)

lemma Contains_ToLower:
  "Contains s substr \<Longrightarrow> Contains (ToLower s) (ToLower substr)"
proof -
  assume "Contains s substr"
  then obtain p q where "s = p @ substr @ q" unfolding Contains_iff by blast
  then have "ToLower s = ToLower p @ ToLower substr @ ToLower q"
    by (simp add: ToLower_append)
  then show ?thesis unfolding Contains_iff by blast
qed




lemma map_eq_middle:
  assumes "map f s = p @ w @ q"
  shows "\<exists>p' sub q'. s = p' @ sub @ q' \<and> map f sub = w"
proof -
  from assms have "\<exists>p' r. s = p' @ r \<and> p = map f p' \<and> w @ q = map f r"
    by (simp only: map_eq_append_conv)
  then obtain p' r where r: "s = p' @ r" "map f r = w @ q"
    by metis
  from r(2) have "\<exists>sub q'. r = sub @ q' \<and> w = map f sub \<and> q = map f q'"
    by (simp only: map_eq_append_conv)
  then obtain sub q' where "r = sub @ q'" "map f sub = w"
    by metis
  with r show ?thesis by blast
qed

lemma ContainsI: "s = p @ substr @ q \<Longrightarrow> Contains s substr"
  using Contains_iff by blast

lemma ContainsD: "Contains s substr \<Longrightarrow> \<exists>p q. s = p @ substr @ q"
  using Contains_iff by blast

lemma Contains_ToLower_iff:
  "Contains (ToLower s) w \<longleftrightarrow> (\<exists>sub. Contains s sub \<and> ToLower sub = w)"
proof
  assume "Contains (ToLower s) w"
  then have "\<exists>p q. ToLower s = p @ w @ q" by (rule ContainsD)
  then obtain p q where "map toLowerByte s = p @ w @ q"
    by (auto simp only: ToLower_def)
  then have "\<exists>p' sub q'. s = p' @ sub @ q' \<and> map toLowerByte sub = w"
    by (rule map_eq_middle)
  then obtain p' sub q' where s: "s = p' @ sub @ q'" and w: "map toLowerByte sub = w"
    by (elim exE conjE)
  from s have "Contains s sub" by (rule ContainsI)
  moreover from w have "ToLower sub = w" by (simp only: ToLower_def)
  ultimately show "\<exists>sub. Contains s sub \<and> ToLower sub = w" by (intro exI conjI)
next
  assume "\<exists>sub. Contains s sub \<and> ToLower sub = w"
  then obtain sub where "Contains s sub" "ToLower sub = w" by (elim exE conjE)
  then show "Contains (ToLower s) w" using Contains_ToLower [of s sub] by simp
qed









section \<open>Sentiment classification\<close>



section \<open>Knowledge retrieval\<close>




section \<open>Effects of the store operations\<close>

lemma GetSession_Inr:
  "GetSession sm sid = Inr s \<longleftrightarrow>
     (\<exists>doc. map_of (sessionDocs sm) sid = Some doc \<and> s = doc\<lparr>ID := sid\<rparr>)"
  by (auto simp: GetSession_def split: option.splits)

lemma GetSession_ID: "GetSession sm sid = Inr s \<Longrightarrow> ID s = sid"
  by (auto simp: GetSession_Inr)

lemma toDoc_ID: "toDoc (doc\<lparr>ID := sid\<rparr>) = toDoc doc"
  by (simp add: toDoc_def)

lemma sessionDocs_UpdateSession:
  "sessionDocs (orKeep (UpdateSession sm s) sm0) = AList.update (ID s) (toDoc s) (sessionDocs sm)"
  by (simp add: UpdateSession_def orKeep_def)

lemma messageDocs_UpdateSession:
  "messageDocs (orKeep (UpdateSession sm s) sm0) = messageDocs sm"
  by (simp add: UpdateSession_def orKeep_def)

lemma groqLog_UpdateSession:
  "groqLog (orKeep (UpdateSession sm s) sm0) = groqLog sm"
  by (simp add: UpdateSession_def orKeep_def)

lemma sessionDocs_SaveMessage:
  "sessionDocs (orKeep (SaveMessage sm msg) sm0) =
     (case map_of (sessionDocs sm) (SessionID msg) of
        None \<Rightarrow> sessionDocs sm
      | Some doc \<Rightarrow> AList.update (SessionID msg) (doc\<lparr>LastMessageAt := Timestamp msg\<rparr>) (sessionDocs sm))"
  by (simp add: SaveMessage_def orKeep_def Let_def split: option.splits)

lemma messageDocs_SaveMessage:
  "messageDocs (orKeep (SaveMessage sm msg) sm0) = messageDocs sm @ [msg]"
  by (simp add: SaveMessage_def orKeep_def Let_def split: option.splits)

lemma groqLog_SaveMessage:
  "groqLog (orKeep (SaveMessage sm msg) sm0) = groqLog sm"
  by (simp add: SaveMessage_def orKeep_def Let_def split: option.splits)

lemma ProcessMessage_live:
  assumes "GetSession sm sid = Inr s" and "Status s = StatusLive"
  shows "ProcessMessage sm chat now sid content =
           (Inr \<lparr>Reply = '''', Confidence = 0, SuggestHandover = False, RespSentiment = ''neutral''\<rparr>, sm)"
  using assms by (simp add: ProcessMessage_def)

lemma ProcessMessage_unfold:
  assumes "GetSession sm sid = Inr s" and "Status s \<noteq> StatusLive"
  shows "ProcessMessage sm chat now sid content =
     (let sm1 = sm\<lparr>groqLog := groqLog sm @ [aiRequest sm chat sid content]\<rparr>;
          (response, session1, sm2) =
             (case aiResult sm chat sid content of
                Inl err \<Rightarrow>
                  (let session' = s\<lparr>FailedAttempts := FailedAttempts s + 1\<rparr>;
                       response' = (if FailedAttempts session' \<ge> 2 then handoverOffer else retryPrompt)
                   in (response', session', orKeep (UpdateSession sm1 session') sm1))
              | Inr response' \<Rightarrow> (response', s, sm1));
          sm3 = orKeep (SaveMessage sm2 (botReply sid now (Reply response))) sm2;
          sm4 = orKeep (UpdateSession sm3 (session1\<lparr>Sentiment := RespSentiment response\<rparr>)) sm3
      in (Inr response, sm4))"
  using assms
  by (simp add: ProcessMessage_def pipelineHistory_def aiResult_def aiRequest_def botReply_def
      GetMessages_def split_beta Let_def)


lemma GetSession_update_same:
  "GetSession (sm\<lparr>sessionDocs := AList.update sid doc docs\<rparr>) sid = Inr (doc\<lparr>ID := sid\<rparr>)"
  by (simp add: GetSession_def AList.update_conv')

lemma GetSession_docs_update_same:
  "sessionDocs sm' = AList.update sid doc docs \<Longrightarrow> GetSession sm' sid = Inr (doc\<lparr>ID := sid\<rparr>)"
  by (simp add: GetSession_def AList.update_conv')

lemma GetSession_docs_update_other:
  "sessionDocs sm' = AList.update sid doc (sessionDocs sm) \<Longrightarrow> sid' \<noteq> sid \<Longrightarrow>
     GetSession sm' sid' = GetSession sm sid'"
  by (simp add: GetSession_def AList.update_conv')

lemma toDoc_restore: "ID s = sid \<Longrightarrow> (toDoc s)\<lparr>ID := sid\<rparr> = s"
  by (simp add: toDoc_def)

lemma ProcessMessage_failure:
  assumes g: "GetSession sm sid = Inr s" and n: "Status s \<noteq> StatusLive"
    and f: "aiResult sm chat sid content = Inl e"
  shows "fst (ProcessMessage sm chat now sid content) =
           Inr (if FailedAttempts s + 1 \<ge> 2 then handoverOffer else retryPrompt)"
    and "sessionDocs (snd (ProcessMessage sm chat now sid content)) =
           AList.update sid
             (toDoc (s\<lparr>FailedAttempts := FailedAttempts s + 1, Sentiment := ''neutral''\<rparr>))
             (sessionDocs sm)"
    and "messageDocs (snd (ProcessMessage sm chat now sid content)) =
           messageDocs sm @
             [botReply sid now
                (Reply (if FailedAttempts s + 1 \<ge> 2 then handoverOffer else retryPrompt))]"
    and "groqLog (snd (ProcessMessage sm chat now sid content)) =
           groqLog sm @ [aiRequest sm chat sid content]"
proof -
  have i: "ID s = sid" using g by (rule GetSession_ID)
  note u = ProcessMessage_unfold [OF g n, of chat now content]
  show "fst (ProcessMessage sm chat now sid content) =
           Inr (if FailedAttempts s + 1 \<ge> 2 then handoverOffer else retryPrompt)"
    unfolding u by (simp add: f Let_def)
  show "sessionDocs (snd (ProcessMessage sm chat now sid content)) =
           AList.update sid
             (toDoc (s\<lparr>FailedAttempts := FailedAttempts s + 1, Sentiment := ''neutral''\<rparr>))
             (sessionDocs sm)"
    unfolding u
    by (simp add: f Let_def i sessionDocs_UpdateSession sessionDocs_SaveMessage botReply_def
        AList.update_conv' handoverOffer_def retryPrompt_def)
  show "messageDocs (snd (ProcessMessage sm chat now sid content)) =
           messageDocs sm @
             [botReply sid now
                (Reply (if FailedAttempts s + 1 \<ge> 2 then handoverOffer else retryPrompt))]"
    unfolding u
    by (simp add: f Let_def messageDocs_UpdateSession messageDocs_SaveMessage)
  show "groqLog (snd (ProcessMessage sm chat now sid content)) =
           groqLog sm @ [aiRequest sm chat sid content]"
    unfolding u
    by (simp add: f Let_def groqLog_UpdateSession groqLog_SaveMessage)
qed

lemma ProcessMessage_success:
  assumes g: "GetSession sm sid = Inr s" and n: "Status s \<noteq> StatusLive"
    and f: "aiResult sm chat sid content = Inr r"
  shows "fst (ProcessMessage sm chat now sid content) = Inr r"
    and "sessionDocs (snd (ProcessMessage sm chat now sid content)) =
           AList.update sid (toDoc (s\<lparr>Sentiment := RespSentiment r\<rparr>)) (sessionDocs sm)"
    and "messageDocs (snd (ProcessMessage sm chat now sid content)) =
           messageDocs sm @ [botReply sid now (Reply r)]"
    and "groqLog (snd (ProcessMessage sm chat now sid content)) =
           groqLog sm @ [aiRequest sm chat sid content]"
proof -
  have i: "ID s = sid" using g by (rule GetSession_ID)
  obtain doc where d: "map_of (sessionDocs sm) sid = Some doc"
    using g unfolding GetSession_Inr by blast
  note u = ProcessMessage_unfold [OF g n, of chat now content]
  show "fst (ProcessMessage sm chat now sid content) = Inr r"
    unfolding u by (simp add: f Let_def)
  show "sessionDocs (snd (ProcessMessage sm chat now sid content)) =
           AList.update sid (toDoc (s\<lparr>Sentiment := RespSentiment r\<rparr>)) (sessionDocs sm)"
    unfolding u
    by (simp add: f Let_def i d sessionDocs_UpdateSession sessionDocs_SaveMessage botReply_def)
  show "messageDocs (snd (ProcessMessage sm chat now sid content)) =
           messageDocs sm @ [botReply sid now (Reply r)]"
    unfolding u
    by (simp add: f Let_def messageDocs_UpdateSession messageDocs_SaveMessage)
  show "groqLog (snd (ProcessMessage sm chat now sid content)) =
           groqLog sm @ [aiRequest sm chat sid content]"
    unfolding u
    by (simp add: f Let_def groqLog_UpdateSession groqLog_SaveMessage)
qed



lemma aiResult_transport_reply:
  "aiResult sm (\<lambda>request. Inr reply) sid content =
     Inr \<lparr>Reply = reply, Confidence = 8 / 10,
          SuggestHandover =
            (analyzeSentiment content = ''frustrated'' \<or> shouldSuggestHandover content reply),
          RespSentiment = analyzeSentiment content\<rparr>"
  by (simp add: aiResult_def engineProcessMessage_def Let_def)



lemma GetSession_botStore: "GetSession botStore ''s1'' = Inr newSession"
  by (simp add: botStore_def CreateSession_def emptyManager_def GetSession_def toDoc_def
      newSession_def Let_def)



section \<open>Effects of the session transitions\<close>

lemma toDoc_LastMessageAt: "(toDoc s)\<lparr>LastMessageAt := t\<rparr> = toDoc (s\<lparr>LastMessageAt := t\<rparr>)"
  by (cases s) (simp add: toDoc_def)

lemma RequestHandover_missing:
  "GetSession sm sid = Inl e \<Longrightarrow> RequestHandover sm now sid = (Inl e, sm)"
  by (simp add: RequestHandover_def)

lemma RequestHandover_docs:
  assumes "GetSession sm sid = Inr s"
  shows "sessionDocs (snd (RequestHandover sm now sid)) =
           AList.update sid (toDoc (s\<lparr>Status := StatusQueued, LastMessageAt := now\<rparr>))
             (sessionDocs sm)"
    and "messageDocs (snd (RequestHandover sm now sid)) =
           messageDocs sm @
             [\<lparr>MsgID = '''', SessionID = sid, Sender = ''system'',
               Content = ''Pengunjung meminta untuk dihubungkan dengan admin.'',
               Timestamp = now\<rparr>]"
    and "fst (RequestHandover sm now sid) = Inr (IsAnyAdminOnline sm)"
proof -
  have i: "ID s = sid" using assms by (rule GetSession_ID)
  show "sessionDocs (snd (RequestHandover sm now sid)) =
           AList.update sid (toDoc (s\<lparr>Status := StatusQueued, LastMessageAt := now\<rparr>))
             (sessionDocs sm)"
    by (simp add: RequestHandover_def assms UpdateSession_def Let_def i
        sessionDocs_SaveMessage AList.update_conv' toDoc_LastMessageAt)
  show "messageDocs (snd (RequestHandover sm now sid)) =
           messageDocs sm @
             [\<lparr>MsgID = '''', SessionID = sid, Sender = ''system'',
               Content = ''Pengunjung meminta untuk dihubungkan dengan admin.'',
               Timestamp = now\<rparr>]"
    by (simp add: RequestHandover_def assms UpdateSession_def Let_def messageDocs_SaveMessage)
  show "fst (RequestHandover sm now sid) = Inr (IsAnyAdminOnline sm)"
    by (simp add: RequestHandover_def assms UpdateSession_def Let_def IsAnyAdminOnline_def
        SaveMessage_def orKeep_def split: option.splits)
qed

lemma ClaimSession_missing:
  "GetSession sm sid = Inl e \<Longrightarrow> ClaimSession sm now sid adminID adminName = (Some e, sm)"
  by (simp add: ClaimSession_def)

lemma ClaimSession_docs:
  assumes "GetSession sm sid = Inr s"
  shows "sessionDocs (snd (ClaimSession sm now sid adminID adminName)) =
           AList.update sid
             (toDoc (s\<lparr>Status := StatusLive, AssignedAdmin := adminID, LastMessageAt := now\<rparr>))
             (sessionDocs sm)"
    and "messageDocs (snd (ClaimSession sm now sid adminID adminName)) =
           messageDocs sm @
             [\<lparr>MsgID = '''', SessionID = sid, Sender = ''system'',
               Content = adminName @ '' telah bergabung ke chat.'', Timestamp = now\<rparr>]"
    and "fst (ClaimSession sm now sid adminID adminName) = None"
proof -
  have i: "ID s = sid" using assms by (rule GetSession_ID)
  show "sessionDocs (snd (ClaimSession sm now sid adminID adminName)) =
           AList.update sid
             (toDoc (s\<lparr>Status := StatusLive, AssignedAdmin := adminID, LastMessageAt := now\<rparr>))
             (sessionDocs sm)"
    by (simp add: ClaimSession_def assms UpdateSession_def Let_def i
        sessionDocs_SaveMessage AList.update_conv' toDoc_LastMessageAt)
  show "messageDocs (snd (ClaimSession sm now sid adminID adminName)) =
           messageDocs sm @
             [\<lparr>MsgID = '''', SessionID = sid, Sender = ''system'',
               Content = adminName @ '' telah bergabung ke chat.'', Timestamp = now\<rparr>]"
    by (simp add: ClaimSession_def assms UpdateSession_def Let_def messageDocs_SaveMessage)
  show "fst (ClaimSession sm now sid adminID adminName) = None"
    by (simp add: ClaimSession_def assms UpdateSession_def Let_def)
qed

lemma CloseSession_missing:
  "GetSession sm sid = Inl e \<Longrightarrow> CloseSession sm now sid = (Some e, sm)"
  by (simp add: CloseSession_def)

lemma CloseSession_docs:
  assumes "GetSession sm sid = Inr s"
  shows "sessionDocs (snd (CloseSession sm now sid)) =
           AList.update sid (toDoc (s\<lparr>Status := StatusClosed, ClosedAt := Some now\<rparr>))
             (sessionDocs sm)"
    and "messageDocs (snd (CloseSession sm now sid)) = messageDocs sm"
    and "fst (CloseSession sm now sid) = None"
proof -
  have i: "ID s = sid" using assms by (rule GetSession_ID)
  show "sessionDocs (snd (CloseSession sm now sid)) =
           AList.update sid (toDoc (s\<lparr>Status := StatusClosed, ClosedAt := Some now\<rparr>))
             (sessionDocs sm)"
    by (simp add: CloseSession_def assms UpdateSession_def Let_def i)
  show "messageDocs (snd (CloseSession sm now sid)) = messageDocs sm"
    by (simp add: CloseSession_def assms UpdateSession_def Let_def)
  show "fst (CloseSession sm now sid) = None"
    by (simp add: CloseSession_def assms UpdateSession_def Let_def)
qed

lemma ReturnToBot_missing:
  "GetSession sm sid = Inl e \<Longrightarrow> ReturnToBot sm now sid = (Some e, sm)"
  by (simp add: ReturnToBot_def)

lemma ReturnToBot_docs:
  assumes "GetSession sm sid = Inr s"
  shows "sessionDocs (snd (ReturnToBot sm now sid)) =
           AList.update sid
             (toDoc (s\<lparr>Status := StatusBot, AssignedAdmin := '''', FailedAttempts := 0,
                       LastMessageAt := now\<rparr>))
             (sessionDocs sm)"
    and "messageDocs (snd (ReturnToBot sm now sid)) =
           messageDocs sm @
             [\<lparr>MsgID = '''', SessionID = sid, Sender = ''system'',
               Content = ''Sesi telah dikembalikan ke AI. Silakan lanjutkan percakapan Anda.'',
               Timestamp = now\<rparr>]"
    and "fst (ReturnToBot sm now sid) = None"
proof -
  have i: "ID s = sid" using assms by (rule GetSession_ID)
  show "sessionDocs (snd (ReturnToBot sm now sid)) =
           AList.update sid
             (toDoc (s\<lparr>Status := StatusBot, AssignedAdmin := '''', FailedAttempts := 0,
                       LastMessageAt := now\<rparr>))
             (sessionDocs sm)"
    by (simp add: ReturnToBot_def assms UpdateSession_def Let_def i
        sessionDocs_SaveMessage AList.update_conv' toDoc_LastMessageAt)
  show "messageDocs (snd (ReturnToBot sm now sid)) =
           messageDocs sm @
             [\<lparr>MsgID = '''', SessionID = sid, Sender = ''system'',
               Content = ''Sesi telah dikembalikan ke AI. Silakan lanjutkan percakapan Anda.'',
               Timestamp = now\<rparr>]"
    by (simp add: ReturnToBot_def assms UpdateSession_def Let_def messageDocs_SaveMessage)
  show "fst (ReturnToBot sm now sid) = None"
    by (simp add: ReturnToBot_def assms UpdateSession_def Let_def)
qed

lemma GetSession_after_update:
  assumes "sessionDocs sm' = AList.update sid (toDoc s) docs" and "ID s = sid"
  shows "GetSession sm' sid = Inr s"
proof -
  have "GetSession sm' sid = Inr ((toDoc s)\<lparr>ID := sid\<rparr>)"
    using assms(1) by (rule GetSession_docs_update_same)
  then show ?thesis using assms(2) by (simp add: toDoc_restore)
qed

lemma GetSession_liveStore:
  "GetSession liveStore ''s1'' =
     Inr (newSession\<lparr>Status := StatusLive, AssignedAdmin := ''a1'', LastMessageAt := 2\<rparr>)"
  unfolding liveStore_def
  by (rule GetSession_after_update [OF ClaimSession_docs(1) [OF GetSession_botStore]])
     (simp add: newSession_def)

lemma GetSession_closedStore:
  "GetSession closedStore ''s1'' =
     Inr (newSession\<lparr>Status := StatusClosed, AssignedAdmin := ''a1'', LastMessageAt := 2,
                      ClosedAt := Some 3\<rparr>)"
proof -
  have "GetSession closedStore ''s1'' =
     Inr (newSession\<lparr>Status := StatusLive, AssignedAdmin := ''a1'', LastMessageAt := 2,
            Status := StatusClosed, ClosedAt := Some 3\<rparr>)"
    unfolding closedStore_def
    by (rule GetSession_after_update [OF CloseSession_docs(1) [OF GetSession_liveStore]])
       (simp add: newSession_def)
  then show ?thesis by simp
qed


section \<open>Effects of the inactivity reaper\<close>

lemma reapLoop_Cons:
  "reapLoop sm now ((k, doc) # rest) =
     reapLoop
       (sm\<lparr>messageDocs := messageDocs sm @ [timeoutNotice k now],
            sessionDocs := AList.update k (toDoc (reaped now doc)) (sessionDocs sm)\<rparr>)
       now rest"
proof -
  have "(toDoc (doc\<lparr>ID := k, Status := StatusClosed, ClosedAt := Some now,
                     Sentiment := ''timeout''\<rparr>))\<lparr>LastMessageAt := now\<rparr> = toDoc (reaped now doc)"
    by (cases doc) (simp add: toDoc_def reaped_def)
  then show ?thesis
    by (simp add: UpdateSession_def SaveMessage_def orKeep_def Let_def timeoutNotice_def
        AList.update_conv')
qed












section \<open>The assigned agent and the status\<close>





lemma allConsistent_same:
  "allConsistent sm \<Longrightarrow> sessionDocs sm' = sessionDocs sm \<Longrightarrow> allConsistent sm'"
  by (simp add: allConsistent_def)

lemma CreateSession_exists:
  "newID \<in> set (map fst (sessionDocs sm)) \<Longrightarrow>
     CreateSession sm now newID a b c d e f = (Inl AlreadyExists, sm)"
  by (simp add: CreateSession_def Let_def)

lemma CreateSession_docs:
  assumes "newID \<notin> set (map fst (sessionDocs sm))"
  shows "sessionDocs (snd (CreateSession sm now newID a b c d e f)) =
           AList.update newID
             (toDoc \<lparr>ID = newID, VisitorID = a, VisitorName = b, VisitorEmail = c,
                     VisitorPhone = d, Status = StatusBot, AssignedAdmin = '''',
                     CurrentPage = e, AISummary = '''', Sentiment = ''neutral'',
                     FailedAttempts = 0, LastMessageAt = now, CreatedAt = now,
                     Location = f, ClosedAt = None\<rparr>)
             (sessionDocs sm)"
    and "fst (CreateSession sm now newID a b c d e f) =
           Inr \<lparr>ID = newID, VisitorID = a, VisitorName = b, VisitorEmail = c,
                VisitorPhone = d, Status = StatusBot, AssignedAdmin = '''',
                CurrentPage = e, AISummary = '''', Sentiment = ''neutral'',
                FailedAttempts = 0, LastMessageAt = now, CreatedAt = now,
                Location = f, ClosedAt = None\<rparr>"
  using assms by (simp_all add: CreateSession_def Let_def toDoc_def)






lemma ProcessMessage_missing:
  "GetSession sm sid = Inl e \<Longrightarrow> ProcessMessage sm chat now sid content = (Inl e, sm)"
  by (simp add: ProcessMessage_def)








section \<open>Closed sessions, the registry and the history\<close>

lemma isClosed_same:
  "isClosed sm sid \<Longrightarrow> sessionDocs sm' = sessionDocs sm \<Longrightarrow> isClosed sm' sid"
  by (simp add: isClosed_def GetSession_def)

lemma isClosed_update:
  assumes "isClosed sm sid" and "sessionDocs sm' = AList.update k (toDoc s') (sessionDocs sm)"
    and "k = sid \<Longrightarrow> Status s' = StatusClosed"
  shows "isClosed sm' sid"
proof (cases "k = sid")
  case True
  have "GetSession sm' sid = Inr ((toDoc s')\<lparr>ID := sid\<rparr>)"
    using assms(2) unfolding True by (rule GetSession_docs_update_same)
  then show ?thesis using assms(3) [OF True] by (simp add: isClosed_def toDoc_def)
next
  case False
  then have "GetSession sm' sid = GetSession sm sid"
    using GetSession_docs_update_other [OF assms(2), of sid] by simp
  then show ?thesis using assms(1) by (simp add: isClosed_def)
qed

lemma isClosed_GetSession:
  "isClosed sm sid \<Longrightarrow> GetSession sm sid = Inr s \<Longrightarrow> Status s = StatusClosed"
  by (simp add: isClosed_def)

lemma isClosed_ProcessMessage:
  assumes "isClosed sm sid"
  shows "isClosed (snd (ProcessMessage sm chat now sid' content)) sid"
proof (cases "GetSession sm sid'")
  case (Inl e)
  then show ?thesis using assms by (simp add: ProcessMessage_missing)
next
  case (Inr s)
  have c: "sid' = sid \<Longrightarrow> Status s = StatusClosed"
    using assms Inr by (auto dest: isClosed_GetSession)
  show ?thesis
  proof (cases "Status s = StatusLive")
    case True
    then show ?thesis using assms by (simp add: ProcessMessage_live [OF Inr])
  next
    case False
    show ?thesis
    proof (cases "aiResult sm chat sid' content")
      case (Inl e)
      show ?thesis
        by (rule isClosed_update [OF assms ProcessMessage_failure(2) [OF Inr False Inl]])
           (use c in simp)
    next
      case r: (Inr r)
      show ?thesis
        by (rule isClosed_update [OF assms ProcessMessage_success(2) [OF Inr False r]])
           (use c in simp)
    qed
  qed
qed

lemma isClosed_CloseSession:
  assumes "isClosed sm sid"
  shows "isClosed (snd (CloseSession sm now sid')) sid"
proof (cases "GetSession sm sid'")
  case (Inl e)
  then show ?thesis using assms by (simp add: CloseSession_missing)
next
  case (Inr s)
  show ?thesis
    by (rule isClosed_update [OF assms CloseSession_docs(1) [OF Inr]]) simp
qed

lemma Status_reaped: "Status (reaped now doc) = StatusClosed"
  by (simp add: reaped_def)

lemma isClosed_reapLoop:
  "isClosed sm sid \<Longrightarrow> isClosed (reapLoop sm now docs) sid"
proof (induction docs arbitrary: sm)
  case Nil
  then show ?case by simp
next
  case (Cons kd docs)
  obtain k doc where kd: "kd = (k, doc)" by (cases kd) auto
  have "isClosed
          (sm\<lparr>messageDocs := messageDocs sm @ [timeoutNotice k now],
               sessionDocs := AList.update k (toDoc (reaped now doc)) (sessionDocs sm)\<rparr>) sid"
    by (rule isClosed_update [OF Cons.prems _ Status_reaped]) simp
  then show ?case unfolding kd reapLoop_Cons by (rule Cons.IH)
qed

lemma isClosed_Cleanup:
  "isClosed sm sid \<Longrightarrow> isClosed (snd (CleanupInactiveSessions sm now duration)) sid"
  by (simp add: CleanupInactiveSessions_def Let_def isClosed_reapLoop)

lemma GetSession_RequestHandover:
  assumes "GetSession sm sid = Inr s"
  shows "GetSession (snd (RequestHandover sm now sid)) sid =
           Inr (s\<lparr>Status := StatusQueued, LastMessageAt := now\<rparr>)"
  by (rule GetSession_after_update [OF RequestHandover_docs(1) [OF assms]])
     (simp add: GetSession_ID [OF assms])

lemma GetSession_ClaimSession:
  assumes "GetSession sm sid = Inr s"
  shows "GetSession (snd (ClaimSession sm now sid adminID adminName)) sid =
           Inr (s\<lparr>Status := StatusLive, AssignedAdmin := adminID, LastMessageAt := now\<rparr>)"
  by (rule GetSession_after_update [OF ClaimSession_docs(1) [OF assms]])
     (simp add: GetSession_ID [OF assms])

lemma GetSession_CloseSession:
  assumes "GetSession sm sid = Inr s"
  shows "GetSession (snd (CloseSession sm now sid)) sid =
           Inr (s\<lparr>Status := StatusClosed, ClosedAt := Some now\<rparr>)"
  by (rule GetSession_after_update [OF CloseSession_docs(1) [OF assms]])
     (simp add: GetSession_ID [OF assms])

lemma GetSession_ReturnToBot:
  assumes "GetSession sm sid = Inr s"
  shows "GetSession (snd (ReturnToBot sm now sid)) sid =
           Inr (s\<lparr>Status := StatusBot, AssignedAdmin := '''', FailedAttempts := 0,
                  LastMessageAt := now\<rparr>)"
  by (rule GetSession_after_update [OF ReturnToBot_docs(1) [OF assms]])
     (simp add: GetSession_ID [OF assms])

lemma anyOnline_iff:
  "anyOnline al \<longleftrightarrow> (\<exists>(k, admin)\<in>set al. AdminState admin = ''online'')"
  by (induction al) auto

lemma offline_removes:
  "map_of (adminStatus (UpdateAdminStatus sm now adminID adminName ''offline'')) adminID = None"
  by (simp add: UpdateAdminStatus_def AList.delete_conv')

lemma offline_others:
  "other \<noteq> adminID \<Longrightarrow>
     map_of (adminStatus (UpdateAdminStatus sm now adminID adminName ''offline'')) other =
       map_of (adminStatus sm) other"
  by (simp add: UpdateAdminStatus_def)

lemma offline_noop:
  "map_of (adminStatus sm) adminID = None \<Longrightarrow>
     UpdateAdminStatus sm now adminID adminName ''offline'' = sm"
  by (simp add: UpdateAdminStatus_def map_of_eq_None_iff)

lemma report_new:
  "status \<noteq> ''offline'' \<Longrightarrow> map_of (adminStatus sm) adminID = None \<Longrightarrow>
     map_of (adminStatus (UpdateAdminStatus sm now adminID adminName status)) adminID =
       Some \<lparr>AdminID = adminID, AdminName = adminName, AdminState = status,
             ActiveChats = 0, MaxChats = 5, LastSeen = now\<rparr>"
  by (simp add: UpdateAdminStatus_def AList.update_conv')

lemma report_existing:
  "status \<noteq> ''offline'' \<Longrightarrow> map_of (adminStatus sm) adminID = Some existing \<Longrightarrow>
     map_of (adminStatus (UpdateAdminStatus sm now adminID adminName status)) adminID =
       Some (existing\<lparr>AdminState := status, LastSeen := now\<rparr>)"
  by (simp add: UpdateAdminStatus_def AList.update_conv')

lemma online_then_offline:
  assumes "adminStatus sm = []"
  shows "IsAnyAdminOnline (UpdateAdminStatus sm now adminID adminName ''online'')"
    and "\<not> IsAnyAdminOnline
            (UpdateAdminStatus (UpdateAdminStatus sm now adminID adminName ''online'')
               now' adminID adminName' ''offline'')"
  using assms by (simp_all add: UpdateAdminStatus_def IsAnyAdminOnline_def)

lemma GetMessages_sorted:
  assumes "sorted (map Timestamp ms)" and "\<forall>m\<in>set ms. SessionID m = sid"
    and "messageDocs sm = ms"
  shows "GetMessages sm sid n = Inr (take n ms)"
proof -
  have "filter (\<lambda>m. SessionID m = sid) ms = ms" using assms(2) by (simp add: filter_id_conv)
  moreover have "sort_key Timestamp ms = ms" using assms(1) by (rule sort_key_id_if_sorted)
  ultimately show ?thesis by (simp add: GetMessages_def assms(3))
qed

lemma historyLoop_visitors:
  "\<forall>m\<in>set ms. Sender m = ''visitor'' \<Longrightarrow>
     historyLoop ms h = h @ map (\<lambda>m. \<lparr>Role = ''user'', GroqContent = Content m\<rparr>) ms"
  by (induction ms arbitrary: h) (simp_all add: Let_def)

lemma historyLoop_eq:
  "historyLoop ms h =
     h @ map (\<lambda>m. \<lparr>Role = (if Sender m = ''bot'' \<or> Sender m = ''admin'' then ''assistant''
                              else ''user''),
                     GroqContent = Content m\<rparr>)
           (filter (\<lambda>m. Sender m \<noteq> ''system'') ms)"
  by (induction ms arbitrary: h) (simp_all add: Let_def)


section \<open>Document ids stay unique\<close>

lemma uniqueIds_update:
  "uniqueIds sm \<Longrightarrow> sessionDocs sm' = AList.update k v (sessionDocs sm) \<Longrightarrow> uniqueIds sm'"
  by (simp add: uniqueIds_def AList.distinct_update)

lemma uniqueIds_same:
  "uniqueIds sm \<Longrightarrow> sessionDocs sm' = sessionDocs sm \<Longrightarrow> uniqueIds sm'"
  by (simp add: uniqueIds_def)

lemma uniqueIds_reapLoop: "uniqueIds sm \<Longrightarrow> uniqueIds (reapLoop sm now docs)"
proof (induction docs arbitrary: sm)
  case Nil
  then show ?case by simp
next
  case (Cons kd docs)
  obtain k doc where kd: "kd = (k, doc)" by (cases kd) auto
  have "uniqueIds
          (sm\<lparr>messageDocs := messageDocs sm @ [timeoutNotice k now],
               sessionDocs := AList.update k (toDoc (reaped now doc)) (sessionDocs sm)\<rparr>)"
    by (rule uniqueIds_update [OF Cons.prems]) simp
  then show ?case unfolding kd reapLoop_Cons by (rule Cons.IH)
qed

lemma uniqueIds_ProcessMessage:
  assumes "uniqueIds sm"
  shows "uniqueIds (snd (ProcessMessage sm chat now sid content))"
proof (cases "GetSession sm sid")
  case (Inl e)
  then show ?thesis using assms by (simp add: ProcessMessage_missing)
next
  case (Inr s)
  show ?thesis
  proof (cases "Status s = StatusLive")
    case True
    then show ?thesis using assms by (simp add: ProcessMessage_live [OF Inr])
  next
    case False
    show ?thesis
    proof (cases "aiResult sm chat sid content")
      case (Inl e)
      show ?thesis
        by (rule uniqueIds_update [OF assms ProcessMessage_failure(2) [OF Inr False Inl]])
    next
      case r: (Inr r)
      show ?thesis
        by (rule uniqueIds_update [OF assms ProcessMessage_success(2) [OF Inr False r]])
    qed
  qed
qed

lemma uniqueIds_step:
  assumes "uniqueIds sm"
  shows "uniqueIds (step sm (now, t))"
proof (cases t)
  case (DoCreateSession newID a b c d e f)
  show ?thesis
  proof (cases "newID \<in> set (map fst (sessionDocs sm))")
    case True
    then show ?thesis using assms
      by (simp only: DoCreateSession step.simps CreateSession_exists snd_conv)
  next
    case False
    show ?thesis unfolding DoCreateSession step.simps
      by (rule uniqueIds_update [OF assms CreateSession_docs(1) [OF False]])
  qed
next
  case (DoRequestHandover sid)
  show ?thesis
  proof (cases "GetSession sm sid")
    case (Inl e)
    then show ?thesis using assms by (simp add: DoRequestHandover RequestHandover_missing)
  next
    case (Inr s)
    show ?thesis unfolding DoRequestHandover step.simps
      by (rule uniqueIds_update [OF assms RequestHandover_docs(1) [OF Inr]])
  qed
next
  case (DoClaimSession sid adminID adminName)
  show ?thesis
  proof (cases "GetSession sm sid")
    case (Inl e)
    then show ?thesis using assms by (simp add: DoClaimSession ClaimSession_missing)
  next
    case (Inr s)
    show ?thesis unfolding DoClaimSession step.simps
      by (rule uniqueIds_update [OF assms ClaimSession_docs(1) [OF Inr]])
  qed
next
  case (DoCloseSession sid)
  show ?thesis
  proof (cases "GetSession sm sid")
    case (Inl e)
    then show ?thesis using assms by (simp add: DoCloseSession CloseSession_missing)
  next
    case (Inr s)
    show ?thesis unfolding DoCloseSession step.simps
      by (rule uniqueIds_update [OF assms CloseSession_docs(1) [OF Inr]])
  qed
next
  case (DoReturnToBot sid)
  show ?thesis
  proof (cases "GetSession sm sid")
    case (Inl e)
    then show ?thesis using assms by (simp add: DoReturnToBot ReturnToBot_missing)
  next
    case (Inr s)
    show ?thesis unfolding DoReturnToBot step.simps
      by (rule uniqueIds_update [OF assms ReturnToBot_docs(1) [OF Inr]])
  qed
next
  case (DoProcessMessage sid content chat)
  show ?thesis unfolding DoProcessMessage step.simps
    using assms by (rule uniqueIds_ProcessMessage)
next
  case (DoCleanup duration)
  show ?thesis using assms
    by (simp add: DoCleanup CleanupInactiveSessions_def Let_def uniqueIds_reapLoop)
qed

lemma uniqueIds_foldl: "uniqueIds sm \<Longrightarrow> uniqueIds (foldl step sm ts)"
proof (induction ts arbitrary: sm)
  case Nil
  then show ?case by simp
next
  case (Cons nt ts)
  obtain now t where nt: "nt = (now, t)" by (cases nt) auto
  from Cons.prems have "uniqueIds (step sm (now, t))" by (rule uniqueIds_step)
  from Cons.IH [OF this] show ?case by (simp add: nt)
qed

lemma uniqueIds_no_sessions: "sessionDocs sm = [] \<Longrightarrow> uniqueIds sm"
  by (simp add: uniqueIds_def)


section \<open>The assigned agent across transitions\<close>



lemma closedSession_eq: "GetSession closedStore ''s1'' = Inr closedSession"
  using GetSession_closedStore by (simp add: closedSession_def)




section \<open>Transitions out of the closed state\<close>

text \<open>
  Claim C2 as the specification states it (\<open>closed\<close> is terminal) fails: \<open>RequestHandover\<close> on
  the closed session \<open>s1\<close> stores it with status \<open>queued\<close>.
\<close>

theorem closed_session_requeued:
  "isClosed closedStore ''s1''
   \<and> GetSession (snd (RequestHandover closedStore 4 ''s1'')) ''s1'' =
       Inr (closedSession\<lparr>Status := StatusQueued, LastMessageAt := 4\<rparr>)
   \<and> \<not> isClosed (snd (RequestHandover closedStore 4 ''s1'')) ''s1''"
proof -
  have c: "isClosed closedStore ''s1''"
    by (simp add: isClosed_def closedSession_eq closedSession_def)
  have g: "GetSession (snd (RequestHandover closedStore 4 ''s1'')) ''s1'' =
       Inr (closedSession\<lparr>Status := StatusQueued, LastMessageAt := 4\<rparr>)"
    using closedSession_eq by (rule GetSession_RequestHandover)
  have n: "\<not> isClosed (snd (RequestHandover closedStore 4 ''s1'')) ''s1''"
    by (simp add: isClosed_def g)
  from c g n show ?thesis by (intro conjI)
qed

text \<open>
  Claim C2, as amended. For a session whose status is \<open>closed\<close>: processing a message (for
  this or any other session), closing a session and the reaper sweep leave it \<open>closed\<close>;
  \<open>RequestHandover\<close>, \<open>ClaimSession\<close> and \<open>ReturnToBot\<close> do not look at the current status and
  set it to \<open>queued\<close>, \<open>live\<close> and \<open>bot\<close>.
\<close>

theorem closed_session_transitions:
  assumes "GetSession sm sid = Inr s" and "Status s = StatusClosed"
  shows "isClosed (snd (ProcessMessage sm chat now other content)) sid
   \<and> isClosed (snd (CloseSession sm now other)) sid
   \<and> isClosed (snd (CleanupInactiveSessions sm now duration)) sid
   \<and> GetSession (snd (RequestHandover sm now sid)) sid =
       Inr (s\<lparr>Status := StatusQueued, LastMessageAt := now\<rparr>)
   \<and> GetSession (snd (ClaimSession sm now sid adminID adminName)) sid =
       Inr (s\<lparr>Status := StatusLive, AssignedAdmin := adminID, LastMessageAt := now\<rparr>)
   \<and> GetSession (snd (ReturnToBot sm now sid)) sid =
       Inr (s\<lparr>Status := StatusBot, AssignedAdmin := '''', FailedAttempts := 0,
              LastMessageAt := now\<rparr>)"
proof -
  have c: "isClosed sm sid" using assms by (simp add: isClosed_def)
  show ?thesis
    using isClosed_ProcessMessage [OF c] isClosed_CloseSession [OF c] isClosed_Cleanup [OF c]
      GetSession_RequestHandover [OF assms(1)] GetSession_ClaimSession [OF assms(1)]
      GetSession_ReturnToBot [OF assms(1)]
    by (intro conjI)
qed

theorem closed_session_transitions_witness:
  "GetSession closedStore ''s1'' = Inr closedSession
   \<and> Status closedSession = StatusClosed
   \<and> isClosed (snd (ProcessMessage closedStore okChat 5 ''s1'' ''halo'')) ''s1''
   \<and> isClosed (snd (CleanupInactiveSessions closedStore 1000 360)) ''s1''
   \<and> GetSession (snd (ReturnToBot closedStore 5 ''s1'')) ''s1'' =
       Inr (closedSession\<lparr>Status := StatusBot, AssignedAdmin := '''', FailedAttempts := 0,
              LastMessageAt := 5\<rparr>)"
proof -
  have s: "Status closedSession = StatusClosed" by (simp add: closedSession_def)
  note t = closed_session_transitions [OF closedSession_eq s,
      of okChat 5 "''s1''" "''halo''" 360 "''a2''" "''Budi''"]
  note u = closed_session_transitions [OF closedSession_eq s,
      of okChat 1000 "''s1''" "''halo''" 360 "''a2''" "''Budi''"]
  from t have 1: "isClosed (snd (ProcessMessage closedStore okChat 5 ''s1'' ''halo'')) ''s1''"
    by (rule conjunct1)
  from u have 2: "isClosed (snd (CleanupInactiveSessions closedStore 1000 360)) ''s1''"
    by (elim conjE)
  from t have 3: "GetSession (snd (ReturnToBot closedStore 5 ''s1'')) ''s1'' =
       Inr (closedSession\<lparr>Status := StatusBot, AssignedAdmin := '''', FailedAttempts := 0,
              LastMessageAt := 5\<rparr>)"
    by (elim conjE)
  from closedSession_eq s 1 2 3 show ?thesis by (intro conjI)
qed


section \<open>The history sent to the AI engine\<close>

lemma longChat_sorted: "sorted (map Timestamp (map numbered [1..<22]))"
proof -
  have eq: "map Timestamp (map numbered [1..<22]) = map int [1..<22]"
    by (simp add: numbered_def comp_def)
  show ?thesis unfolding eq by (simp add: sorted_map)
qed

text \<open>
  Claim C3 fails on the code. \<open>GetMessages\<close> orders the messages of the session by ascending
  timestamp and keeps the first 20, so for a session with 21 messages (numbered by their
  timestamps 1 to 21) the history is built from messages 1 to 20: the oldest message is in it
  and the most recent one is not.
\<close>

theorem history_from_oldest_twenty:
  "messageDocs longChat = map numbered [1..<22]
   \<and> GetMessages longChat ''s1'' 20 = Inr (map numbered [1..<21])
   \<and> pipelineHistory longChat ''s1'' =
       map (\<lambda>i. \<lparr>Role = ''user'', GroqContent = replicate i (CHR ''x'')\<rparr>) [1..<21]
   \<and> numbered 1 \<in> set (map numbered [1..<21])
   \<and> numbered 21 \<notin> set (map numbered [1..<21])"
proof -
  have m: "messageDocs longChat = map numbered [1..<22]" by (simp add: longChat_def)
  have a: "\<forall>m\<in>set (map numbered [1..<22]). SessionID m = ''s1''"
    by (simp add: numbered_def)
  have "GetMessages longChat ''s1'' 20 = Inr (take 20 (map numbered [1..<22]))"
    using longChat_sorted a m by (rule GetMessages_sorted)
  then have g: "GetMessages longChat ''s1'' 20 = Inr (map numbered [1..<21])"
    by (simp add: take_map)
  have v: "\<forall>m\<in>set (map numbered [1..<21]). Sender m = ''visitor''"
    by (simp add: numbered_def)
  have h: "pipelineHistory longChat ''s1'' =
       map (\<lambda>i. \<lparr>Role = ''user'', GroqContent = replicate i (CHR ''x'')\<rparr>) [1..<21]"
    unfolding pipelineHistory_def g using historyLoop_visitors [OF v, of "[]"]
    by (simp add: comp_def numbered_def)
  have inj: "\<And>i j. numbered i = numbered j \<Longrightarrow> i = j"
    by (simp add: numbered_def)
  have o: "numbered 1 \<in> set (map numbered [1..<21])" by simp
  have n: "numbered 21 \<notin> set (map numbered [1..<21])"
    using inj by fastforce
  from m g h o n show ?thesis by (intro conjI)
qed

section \<open>The live short-circuit\<close>

text \<open>
  Claim C5. For a session whose status is \<open>live\<close>, \<open>ProcessMessage\<close> returns the response with
  an empty reply and no handover suggestion and leaves the whole state as it was: no request
  reaches the external model and no message is saved. The same holds whatever the message
  collection holds and however the external model would behave, so no history is consulted.
\<close>

theorem ProcessMessage_live_short_circuit:
  assumes "GetSession sm sid = Inr s" and "Status s = StatusLive"
  shows "ProcessMessage sm chat now sid content =
           (Inr \<lparr>Reply = '''', Confidence = 0, SuggestHandover = False,
                 RespSentiment = ''neutral''\<rparr>, sm)
   \<and> groqLog (snd (ProcessMessage sm chat now sid content)) = groqLog sm
   \<and> messageDocs (snd (ProcessMessage sm chat now sid content)) = messageDocs sm
   \<and> fst (ProcessMessage (sm\<lparr>messageDocs := ms\<rparr>) chat' now sid content) =
       fst (ProcessMessage sm chat now sid content)"
proof -
  have g': "GetSession (sm\<lparr>messageDocs := ms\<rparr>) sid = Inr s"
    using assms(1) by (simp add: GetSession_def)
  show ?thesis
    by (simp add: ProcessMessage_live [OF assms] ProcessMessage_live [OF g' assms(2)])
qed

theorem ProcessMessage_live_short_circuit_witness:
  "GetSession liveStore ''s1'' =
     Inr (newSession\<lparr>Status := StatusLive, AssignedAdmin := ''a1'', LastMessageAt := 2\<rparr>)
   \<and> ProcessMessage liveStore okChat 5 ''s1'' ''halo'' =
       (Inr \<lparr>Reply = '''', Confidence = 0, SuggestHandover = False,
             RespSentiment = ''neutral''\<rparr>, liveStore)"
proof -
  have s: "Status (newSession\<lparr>Status := StatusLive, AssignedAdmin := ''a1'',
              LastMessageAt := 2\<rparr>) = StatusLive"
    by simp
  have "ProcessMessage liveStore okChat 5 ''s1'' ''halo'' =
       (Inr \<lparr>Reply = '''', Confidence = 0, SuggestHandover = False,
             RespSentiment = ''neutral''\<rparr>, liveStore)"
    using ProcessMessage_live_short_circuit [OF GetSession_liveStore s, of okChat 5 "''halo''"]
    by (rule conjunct1)
  with GetSession_liveStore show ?thesis by (intro conjI)
qed

section \<open>Failure escalation\<close>




section \<open>The reaper closes the overdue active sessions\<close>








section \<open>The agent presence registry\<close>

text \<open>
  Claim C9. Reporting \<open>offline\<close> for an agent removes its entry, leaves the other entries as
  they are, and changes nothing when the agent has no entry. Reporting another state for an
  agent without an entry creates the entry with that state, no active chats and capacity 5.
  Starting from an empty registry, after \<open>online\<close> the check \<open>IsAnyAdminOnline\<close> is true and
  after a following \<open>offline\<close> for the same agent it is false.
\<close>

theorem UpdateAdminStatus_registry:
  "map_of (adminStatus (UpdateAdminStatus sm now adminID adminName ''offline'')) adminID = None
   \<and> (other \<noteq> adminID \<longrightarrow>
        map_of (adminStatus (UpdateAdminStatus sm now adminID adminName ''offline'')) other =
          map_of (adminStatus sm) other)
   \<and> (map_of (adminStatus sm) adminID = None \<longrightarrow>
        UpdateAdminStatus sm now adminID adminName ''offline'' = sm)
   \<and> (status \<noteq> ''offline'' \<and> map_of (adminStatus sm) adminID = None \<longrightarrow>
        map_of (adminStatus (UpdateAdminStatus sm now adminID adminName status)) adminID =
          Some \<lparr>AdminID = adminID, AdminName = adminName, AdminState = status,
                ActiveChats = 0, MaxChats = 5, LastSeen = now\<rparr>)
   \<and> (adminStatus sm = [] \<longrightarrow>
        IsAnyAdminOnline (UpdateAdminStatus sm now adminID adminName ''online'')
        \<and> \<not> IsAnyAdminOnline
              (UpdateAdminStatus (UpdateAdminStatus sm now adminID adminName ''online'')
                 now' adminID adminName' ''offline''))"
proof -
  have 1: "map_of (adminStatus (UpdateAdminStatus sm now adminID adminName ''offline'')) adminID = None"
    by (rule offline_removes)
  have 2: "other \<noteq> adminID \<longrightarrow>
        map_of (adminStatus (UpdateAdminStatus sm now adminID adminName ''offline'')) other =
          map_of (adminStatus sm) other"
    using offline_others by blast
  have 3: "map_of (adminStatus sm) adminID = None \<longrightarrow>
        UpdateAdminStatus sm now adminID adminName ''offline'' = sm"
    using offline_noop by blast
  have 4: "status \<noteq> ''offline'' \<and> map_of (adminStatus sm) adminID = None \<longrightarrow>
        map_of (adminStatus (UpdateAdminStatus sm now adminID adminName status)) adminID =
          Some \<lparr>AdminID = adminID, AdminName = adminName, AdminState = status,
                ActiveChats = 0, MaxChats = 5, LastSeen = now\<rparr>"
    using report_new by blast
  have 5: "adminStatus sm = [] \<longrightarrow>
        IsAnyAdminOnline (UpdateAdminStatus sm now adminID adminName ''online'')
        \<and> \<not> IsAnyAdminOnline
              (UpdateAdminStatus (UpdateAdminStatus sm now adminID adminName ''online'')
                 now' adminID adminName' ''offline'')"
    using online_then_offline by blast
  from 1 2 3 4 5 show ?thesis by (intro conjI)
qed

theorem UpdateAdminStatus_registry_witness:
  "adminStatus emptyManager = []
   \<and> map_of (adminStatus emptyManager) ''a1'' = None
   \<and> UpdateAdminStatus emptyManager 1 ''a1'' ''Ani'' ''offline'' = emptyManager
   \<and> map_of (adminStatus (UpdateAdminStatus emptyManager 1 ''a1'' ''Ani'' ''away'')) ''a1'' =
       Some \<lparr>AdminID = ''a1'', AdminName = ''Ani'', AdminState = ''away'',
             ActiveChats = 0, MaxChats = 5, LastSeen = 1\<rparr>
   \<and> IsAnyAdminOnline (UpdateAdminStatus emptyManager 1 ''a1'' ''Ani'' ''online'')
   \<and> \<not> IsAnyAdminOnline
         (UpdateAdminStatus (UpdateAdminStatus emptyManager 1 ''a1'' ''Ani'' ''online'')
            2 ''a1'' ''Ani'' ''offline'')"
proof -
  have e: "adminStatus emptyManager = []" by (simp add: emptyManager_def)
  then have n: "map_of (adminStatus emptyManager) ''a1'' = None" by simp
  have a: "''away'' \<noteq> ''offline''" by simp
  note t = UpdateAdminStatus_registry [of emptyManager 1 "''a1''" "''Ani''" "''a2''" "''away''"
      2 "''Ani''"]
  from t n have 1: "UpdateAdminStatus emptyManager 1 ''a1'' ''Ani'' ''offline'' = emptyManager"
    by blast
  from t n a have 2:
    "map_of (adminStatus (UpdateAdminStatus emptyManager 1 ''a1'' ''Ani'' ''away'')) ''a1'' =
       Some \<lparr>AdminID = ''a1'', AdminName = ''Ani'', AdminState = ''away'',
             ActiveChats = 0, MaxChats = 5, LastSeen = 1\<rparr>"
    by blast
  from t e have 3: "IsAnyAdminOnline (UpdateAdminStatus emptyManager 1 ''a1'' ''Ani'' ''online'')"
    by blast
  from t e have 4: "\<not> IsAnyAdminOnline
         (UpdateAdminStatus (UpdateAdminStatus emptyManager 1 ''a1'' ''Ani'' ''online'')
            2 ''a1'' ''Ani'' ''offline'')"
    by blast
  from e n 1 2 3 4 show ?thesis by (intro conjI)
qed

section \<open>The failure counter across successful replies\<close>

lemma allSucceed_ok: "allSucceed sm sid (map (\<lambda>(now, content). (\<lambda>request. Inr reply, now, content)) turns)"
  by (induction turns arbitrary: sm) (auto simp: aiResult_transport_reply)





end
